theory Spec2Isabelle
  imports Main
begin

section \<open>JavaScript values\<close>

text \<open>
  The settings API of \<^verbatim>\<open>core/server/api/v0.1/settings.js\<close> is dynamically typed: the
  second argument of \<^verbatim>\<open>edit\<close> is an options object in the batch form and the new value
  in the shorthand form, and a caller's context may be absent. Values are therefore
  modelled as JSON-like data. Numbers are integers here; nothing below computes with them.
\<close>

datatype jsvalue =
    JUndefined
  | JNull
  | JBool bool
  | JNumber int
  | JString string
  | JArray "jsvalue list"
  | JObject "(string \<times> jsvalue) list"

text \<open>JavaScript truthiness, as tested by \<^verbatim>\<open>!x\<close>, \<^verbatim>\<open>x && y\<close> and \<^verbatim>\<open>x || y\<close>.\<close>

fun truthy :: "jsvalue \<Rightarrow> bool" where
  "truthy JUndefined = False"
| "truthy JNull = False"
| "truthy (JBool b) = b"
| "truthy (JNumber n) = (n \<noteq> 0)"
| "truthy (JString s) = (s \<noteq> [])"
| "truthy (JArray xs) = True"
| "truthy (JObject fs) = True"

text \<open>\<^verbatim>\<open>_.isString\<close>.\<close>

fun isString :: "jsvalue \<Rightarrow> bool" where
  "isString (JString s) = True"
| "isString v = False"

text \<open>
  The property read \<^verbatim>\<open>v.name\<close> on a value that is neither undefined nor null: an
  object's own property, and undefined for a property an object or a primitive lacks.
\<close>

fun property :: "jsvalue \<Rightarrow> string \<Rightarrow> jsvalue" where
  "property (JObject fs) name = (case map_of fs name of Some v \<Rightarrow> v | None \<Rightarrow> JUndefined)"
| "property v name = JUndefined"

text \<open>
  The test \<^verbatim>\<open>options.context && options.context.internal\<close> of \<^verbatim>\<open>read\<close> and
  \<^verbatim>\<open>canEditAllSettings\<close>, on the context \<^verbatim>\<open>options.context\<close>.
\<close>

definition internal :: "jsvalue \<Rightarrow> bool" where
  "internal context = (truthy context \<and> truthy (property context ''internal''))"

section \<open>Errors and outcomes\<close>

text \<open>
  The error classes of \<^verbatim>\<open>common.errors\<close> that the file raises or lets through, each
  with its message (the i18n key handed to \<^verbatim>\<open>common.i18n.t\<close>, with the interpolated
  setting key where there is one). \<open>NotFoundError\<close> also carries the wrapped \<^verbatim>\<open>err\<close>
  of \<^verbatim>\<open>download\<close>, \<open>BadRequestError\<close> its \<^verbatim>\<open>help\<close>. \<open>TypeError\<close> is the
  runtime's own error for a property read on undefined; \<open>NodeError\<close> is an error of
  the platform carrying a \<^verbatim>\<open>code\<close> such as \<^verbatim>\<open>ENOENT\<close>; \<open>PlainError\<close> is an
  \<^verbatim>\<open>Error\<close> with a message and nothing else, as a library throws it.
\<close>

datatype message = T string | T_key string string

datatype error =
    NotFoundError "message option" "error option"
  | NoPermissionError message
  | BadRequestError message message
  | ValidationError message
  | InternalServerError message
  | TypeError string
  | NodeError string
  | PlainError string

text \<open>\<^verbatim>\<open>err.code\<close>.\<close>

fun code :: "error \<Rightarrow> string option" where
  "code (NodeError c) = Some c"
| "code e = None"

text \<open>\<^verbatim>\<open>common.errors.utils.isIgnitionError\<close>: the classes of \<^verbatim>\<open>common.errors\<close>.\<close>

fun isIgnitionError :: "error \<Rightarrow> bool" where
  "isIgnitionError (TypeError s) = False"
| "isIgnitionError (NodeError c) = False"
| "isIgnitionError (PlainError m) = False"
| "isIgnitionError e = True"

text \<open>
  What a call does: it throws synchronously, or it returns a promise that is rejected or
  resolved.
\<close>

datatype 'a outcome = Throws error | Rejects error | Resolves 'a

section \<open>Settings and the cache\<close>

text \<open>
  A setting as the cache holds it and as an entry of an edit batch: its key, its value
  and its access class (absent on the entries of a batch). The persistence metadata
  (\<^verbatim>\<open>id\<close>, timestamps) plays no part in this file and is left out.
\<close>

record setting =
  key :: string
  "value" :: jsvalue
  type :: "string option"

text \<open>
  Modelled from the spec: \<^verbatim>\<open>services/settings/cache\<close> is not among the sources. The
  cache is a mapping from key to setting; \<^verbatim>\<open>getAll()\<close> is the keyed object, whose values
  lodash enumerates in insertion order, so it is the list of its settings;
  \<^verbatim>\<open>get(key, {resolve: false})\<close> is the exact-key lookup of the whole setting.
\<close>

type_synonym cache = "setting list"

definition settingsCache_getAll :: "cache \<Rightarrow> setting list" where
  "settingsCache_getAll cache = cache"

definition settingsCache_get :: "cache \<Rightarrow> string \<Rightarrow> setting option" where
  "settingsCache_get cache k = find (\<lambda>setting. key setting = k) cache"

section \<open>Helpers\<close>

text \<open>\<^verbatim>\<open>String.prototype.split(',')\<close>.\<close>

fun split_comma :: "string \<Rightarrow> string list" where
  "split_comma [] = [[]]"
| "split_comma (c # cs) =
     (if c = CHR '','' then [] # split_comma cs
      else (case split_comma cs of [] \<Rightarrow> [[c]] | w # ws \<Rightarrow> (c # w) # ws))"

text \<open>
  \<^verbatim>\<open>settingsFilter\<close>: \<^verbatim>\<open>filter ? filter.split(',') : false\<close>, then the settings whose
  type is among the filtered types, or all of them without a filter. An absent or empty
  filter is falsy.
\<close>

definition settingsFilter :: "setting list \<Rightarrow> string option \<Rightarrow> setting list" where
  "settingsFilter settings flt =
     (let filteredTypes =
            (case flt of None \<Rightarrow> None
             | Some f \<Rightarrow> if f \<noteq> [] then Some (split_comma f) else None)
      in filter (\<lambda>setting.
           (case filteredTypes of
              Some types \<Rightarrow>
                (case type setting of None \<Rightarrow> False | Some t \<Rightarrow> t \<in> set types)
            | None \<Rightarrow> True)) settings)"

text \<open>
  \<^verbatim>\<open>settingsResult\<close>: the API format, with \<^verbatim>\<open>meta.filters.type\<close> only when a
  (truthy) type was given.
\<close>

record settings_result =
  settings :: "setting list"
  meta_filters_type :: "string option"

definition settingsResult :: "setting list \<Rightarrow> string option \<Rightarrow> settings_result" where
  "settingsResult sets tp =
     \<lparr>settings = settingsFilter sets tp,
      meta_filters_type =
        (case tp of None \<Rightarrow> None | Some t \<Rightarrow> if t \<noteq> [] then Some t else None)\<rparr>"

section \<open>Collaborators\<close>

text \<open>
  The permission engine \<^verbatim>\<open>canThis(context).<action>.setting(key)\<close>, the document
  checker, the settings model and the permission handler of \<^verbatim>\<open>./utils\<close> are consumed
  through their interfaces and are parameters of the operations: for a context, an
  action and a key (none for browse) the engine either allows (\<open>None\<close>) or rejects with
  an error of its own. Each consultation of a collaborator is recorded as an event, in
  the order of the calls; a reload is recorded with the contents of the routes file it
  finds.
\<close>

datatype action = Browse | Read | Edit

type_synonym engine = "jsvalue \<Rightarrow> action \<Rightarrow> string option \<Rightarrow> error option"

datatype event =
    CanThis jsvalue action "string option"
  | CheckObject "setting list"
  | ModelsEdit "setting list" jsvalue
  | HandlePermissions action
  | Copy string string
  | ResetGenerators
  | Reload "string option"
  | ReadFile string

section \<open>Authorization of an edit batch\<close>

text \<open>
  Each check of \<^verbatim>\<open>canEditAllSettings\<close> is a promise: one made by \<^verbatim>\<open>Promise.reject\<close> is
  rejected when \<^verbatim>\<open>Promise.all\<close> receives it; the one chained on the engine's promise by
  \<^verbatim>\<open>.catch\<close> is still pending then and settles later, rejected with the uniform
  permission error when the engine rejected.
\<close>

datatype check = Already_rejected error | Pending "error option"

definition checkSettingPermissions ::
  "engine \<Rightarrow> jsvalue \<Rightarrow> setting \<Rightarrow> event list \<times> check" where
  "checkSettingPermissions canThis options setting =
     (if type setting = Some ''core'' \<and> \<not> internal (property options ''context'')
      then ([], Already_rejected
              (NoPermissionError (T ''errors.api.settings.accessCoreSettingFromExtReq'')))
      else ([CanThis (property options ''context'') Edit (Some (key setting))],
            Pending
              (case canThis (property options ''context'') Edit (Some (key setting)) of
                 None \<Rightarrow> None
               | Some e \<Rightarrow>
                   Some (NoPermissionError
                           (T ''errors.api.settings.noPermissionToEditSettings'')))))"

definition checkSetting ::
  "cache \<Rightarrow> engine \<Rightarrow> jsvalue \<Rightarrow> setting \<Rightarrow> event list \<times> check" where
  "checkSetting cache canThis options settingInfo =
     (case settingsCache_get cache (key settingInfo) of
        None \<Rightarrow>
          ([], Already_rejected
                 (NotFoundError
                    (Some (T_key ''errors.api.settings.problemFindingSetting''
                             (key settingInfo))) None))
      | Some setting \<Rightarrow>
          if key setting = ''active_theme''
          then ([], Already_rejected
                  (BadRequestError
                     (T ''errors.api.settings.activeThemeSetViaAPI.error'')
                     (T ''errors.api.settings.activeThemeSetViaAPI.help'')))
          else checkSettingPermissions canThis options setting)"

text \<open>
  \<^verbatim>\<open>Promise.all\<close> rejects with the reason of the first promise that rejects: the first
  already rejected one in array order if there is one, otherwise a pending one that
  rejects later. Every pending check rejects with the same error, so which of them
  settles first does not show in the result.
\<close>

fun first_rejected :: "check list \<Rightarrow> error option" where
  "first_rejected [] = None"
| "first_rejected (Already_rejected e # cs) = Some e"
| "first_rejected (Pending r # cs) = first_rejected cs"

fun first_failed :: "check list \<Rightarrow> error option" where
  "first_failed [] = None"
| "first_failed (Pending (Some e) # cs) = Some e"
| "first_failed (c # cs) = first_failed cs"

definition Promise_all :: "check list \<Rightarrow> error option" where
  "Promise_all checks =
     (case first_rejected checks of Some e \<Rightarrow> Some e | None \<Rightarrow> first_failed checks)"

definition canEditAllSettings ::
  "cache \<Rightarrow> engine \<Rightarrow> setting list \<Rightarrow> jsvalue \<Rightarrow> event list \<times> error option" where
  "canEditAllSettings cache canThis settingsInfo options =
     (let checks = map (checkSetting cache canThis options) settingsInfo
      in (concat (map fst checks), Promise_all (map snd checks)))"

section \<open>The options of a call\<close>

text \<open>
  The options object of \<^verbatim>\<open>browse\<close>, \<^verbatim>\<open>read\<close>, \<^verbatim>\<open>upload\<close> and \<^verbatim>\<open>download\<close>, with
  the properties these read: \<^verbatim>\<open>key\<close>, \<^verbatim>\<open>type\<close>, \<^verbatim>\<open>context\<close> (undefined when absent)
  and \<^verbatim>\<open>path\<close>. \<open>no_options\<close> is the empty object \<^verbatim>\<open>{}\<close>.
\<close>

record options =
  opt_key :: string
  opt_type :: "string option"
  opt_context :: jsvalue
  opt_path :: string

definition no_options :: options where
  "no_options = \<lparr>opt_key = [], opt_type = None, opt_context = JUndefined, opt_path = []\<rparr>"

section \<open>Browse\<close>

text \<open>
  Without a context \<^verbatim>\<open>browse\<close> resolves with the bare array of the blog settings of the
  (type-filtered) result; with one it asks the engine, whose rejection it lets through,
  and resolves with the result object, without the core settings and \<^verbatim>\<open>permalinks\<close>
  unless the context is internal.
\<close>

datatype browse_result = Settings "setting list" | Result settings_result

definition browse ::
  "cache \<Rightarrow> engine \<Rightarrow> options option \<Rightarrow> event list \<times> browse_result outcome" where
  "browse cache canThis options0 =
     (let options = (case options0 of None \<Rightarrow> no_options | Some opts \<Rightarrow> opts);
          result = settingsResult (settingsCache_getAll cache) (opt_type options)
      in if \<not> truthy (opt_context options)
         then ([], Resolves (Settings
                 (filter (\<lambda>setting. type setting = Some ''blog'') (settings result))))
         else ([CanThis (opt_context options) Browse None],
               (case canThis (opt_context options) Browse None of
                  Some e \<Rightarrow> Rejects e
                | None \<Rightarrow>
                    if \<not> truthy (property (opt_context options) ''internal'')
                    then Resolves (Result (result\<lparr>settings :=
                           filter (\<lambda>setting. type setting \<noteq> Some ''core''
                                     \<and> key setting \<noteq> ''permalinks'') (settings result)\<rparr>))
                    else Resolves (Result result))))"

section \<open>Read\<close>

text \<open>\<^verbatim>\<open>read\<close> takes the options or, as a shorthand, the key alone.\<close>

datatype read_arg = Key string | Options options

definition read ::
  "cache \<Rightarrow> engine \<Rightarrow> read_arg \<Rightarrow> event list \<times> settings_result outcome" where
  "read cache canThis arg =
     (let options = (case arg of Key k \<Rightarrow> no_options\<lparr>opt_key := k\<rparr> | Options opts \<Rightarrow> opts)
      in case settingsCache_get cache (opt_key options) of
           None \<Rightarrow>
             ([], Rejects (NotFoundError
                    (Some (T_key ''errors.api.settings.problemFindingSetting''
                             (opt_key options))) None))
         | Some setting \<Rightarrow>
             if type setting = Some ''core'' \<and> \<not> internal (opt_context options)
             then ([], Rejects (NoPermissionError
                     (T ''errors.api.settings.accessCoreSettingFromExtReq'')))
             else if key setting = ''permalinks''
             then ([], Rejects (NotFoundError
                     (Some (T ''errors.errors.resourceNotFound'')) None))
             else if type setting = Some ''blog''
             then ([], Resolves (settingsResult [setting] None))
             else ([CanThis (opt_context options) Read (Some (opt_key options))],
                   (case canThis (opt_context options) Read (Some (opt_key options)) of
                      None \<Rightarrow> Resolves (settingsResult [setting] None)
                    | Some e \<Rightarrow>
                        Rejects (NoPermissionError
                          (T ''errors.api.settings.noPermissionToReadSettings'')))))"

section \<open>Edit\<close>

text \<open>
  \<^verbatim>\<open>JSON.stringify\<close> belongs to the language. For undefined it yields undefined; for
  every other value of \<open>jsvalue\<close> it yields a JSON text, and which text is a parameter.
  \<open>clean\<close> is the body of the \<^verbatim>\<open>forEach\<close> that cleans the data: an entry without a
  value (its value is undefined) keeps the undefined value.
\<close>

definition JSON_stringify :: "(jsvalue \<Rightarrow> string) \<Rightarrow> jsvalue \<Rightarrow> jsvalue" where
  "JSON_stringify stringify v = (if v = JUndefined then JUndefined else JString (stringify v))"

definition clean :: "(jsvalue \<Rightarrow> string) \<Rightarrow> setting \<Rightarrow> setting" where
  "clean stringify setting =
     (if \<not> isString (value setting)
      then setting\<lparr>value := JSON_stringify stringify (value setting)\<rparr>
      else setting)"

text \<open>
  \<^verbatim>\<open>_.keyBy(..., 'key')\<close>: an object with one property per key, a later setting
  replacing an earlier one of the same key in place; enumerated in insertion order.
\<close>

fun keyBy_set :: "setting \<Rightarrow> setting list \<Rightarrow> setting list" where
  "keyBy_set s [] = [s]"
| "keyBy_set s (x # xs) = (if key x = key s then s # xs else x # keyBy_set s xs)"

definition keyBy :: "setting list \<Rightarrow> setting list" where
  "keyBy models = foldl (\<lambda>acc s. keyBy_set s acc) [] models"

text \<open>
  The first argument of \<^verbatim>\<open>edit\<close> is a key (the shorthand, whose second argument is the
  value) or an object with the \<^verbatim>\<open>settings\<close> of the batch. The three steps before the
  first check are \<open>normalize_edit\<close>: the options default to \<^verbatim>\<open>{}\<close>, the values are cleaned,
  the value of the first entry of key \<^verbatim>\<open>type\<close> is kept apart and the entries of that
  key are rejected from the batch.
\<close>

datatype edit_object = Name string | Object "setting list"

definition default_options :: "jsvalue \<Rightarrow> jsvalue" where
  "default_options options = (if truthy options then options else JObject [])"

definition type_hint :: "setting list \<Rightarrow> string option" where
  "type_hint sets =
     (case find (\<lambda>setting. key setting = ''type'') sets of
        None \<Rightarrow> None
      | Some t \<Rightarrow> (case value t of JString s \<Rightarrow> Some s | _ \<Rightarrow> None))"

definition normalize_edit ::
  "(jsvalue \<Rightarrow> string) \<Rightarrow> edit_object \<Rightarrow> jsvalue
     \<Rightarrow> jsvalue \<times> string option \<times> setting list" where
  "normalize_edit stringify object options0 =
     (let options = default_options options0;
          settings0 = (case object of
                         Name k \<Rightarrow> [\<lparr>key = k, value = options, type = None\<rparr>]
                       | Object sets \<Rightarrow> sets);
          settings1 = map (clean stringify) settings0
      in (options, type_hint settings1,
          filter (\<lambda>setting. key setting \<noteq> ''type'') settings1))"

text \<open>
  The document checker \<^verbatim>\<open>localUtils.checkObject\<close> and the model's
  \<^verbatim>\<open>models.Settings.edit\<close> are parameters; each fails with an error or returns the
  checked settings, the updated settings (as \<^verbatim>\<open>toJSON\<close> gives them).
\<close>

definition edit ::
  "cache \<Rightarrow> engine \<Rightarrow> (jsvalue \<Rightarrow> string)
     \<Rightarrow> (setting list \<Rightarrow> error + setting list)
     \<Rightarrow> (setting list \<Rightarrow> jsvalue \<Rightarrow> error + setting list)
     \<Rightarrow> edit_object \<Rightarrow> jsvalue \<Rightarrow> event list \<times> settings_result outcome" where
  "edit cache canThis stringify checkObject models_edit object options0 =
     (case normalize_edit stringify object options0 of
        (options, tp, sets) \<Rightarrow>
          (case sets of
             [] \<Rightarrow> ([], Throws (TypeError ''Cannot read property 'key' of undefined''))
           | first # rest \<Rightarrow>
               if key first = ''permalinks''
               then ([], Rejects (NotFoundError
                       (Some (T ''errors.errors.resourceNotFound'')) None))
               else
                 (case canEditAllSettings cache canThis sets options of
                    (evs, Some e) \<Rightarrow> (evs, Rejects e)
                  | (evs, None) \<Rightarrow>
                      (case checkObject sets of
                         Inl e \<Rightarrow> (evs @ [CheckObject sets], Rejects e)
                       | Inr checked \<Rightarrow>
                           (case models_edit checked options of
                              Inl e \<Rightarrow>
                                (evs @ [CheckObject sets, ModelsEdit checked options],
                                 Rejects e)
                            | Inr models \<Rightarrow>
                                (evs @ [CheckObject sets, ModelsEdit checked options],
                                 Resolves (settingsResult (keyBy models) tp)))))))"

section \<open>The routes file\<close>

text \<open>
  The files of the content folder: a path holds contents or nothing. \<^verbatim>\<open>fs.copy\<close> of
  fs-extra rejects a copy of a file onto itself and a copy of a missing source
  (\<^verbatim>\<open>ENOENT\<close>). Otherwise it gives the destination the contents of the source, unless
  the platform fails it: before anything is written (no access, say), so that the
  destination is as it was, or midway (no space left, say), so that the destination
  holds what had been written. What the platform does to a copy is a parameter.
  \<^verbatim>\<open>path.join\<close> puts a separator between its arguments (its normalisation of the path
  is left out), as the template strings of \<^verbatim>\<open>upload\<close> do.
\<close>

type_synonym files = "string \<Rightarrow> string option"

datatype copy_fault = Fails error | Partial string error

definition fs_copy ::
  "copy_fault option \<Rightarrow> string \<Rightarrow> string \<Rightarrow> files \<Rightarrow> files \<times> error option" where
  "fs_copy fault src dest fs =
     (if src = dest
      then (fs, Some (PlainError ''Source and destination must not be the same.''))
      else
        (case fs src of
           None \<Rightarrow> (fs, Some (NodeError ''ENOENT''))
         | Some contents \<Rightarrow>
             (case fault of
                None \<Rightarrow> (fs(dest \<mapsto> contents), None)
              | Some (Fails e) \<Rightarrow> (fs, Some e)
              | Some (Partial written e) \<Rightarrow> (fs(dest \<mapsto> written), Some e))))"

definition path_join :: "string \<Rightarrow> string \<Rightarrow> string" where
  "path_join dir name = dir @ ''/'' @ name"

text \<open>
  \<^verbatim>\<open>upload\<close>. The site application \<^verbatim>\<open>web/site/app\<close> is not among the sources: its
  \<^verbatim>\<open>reload()\<close>, which recreates the routers from the routes file as it is at the call,
  is a parameter that for the contents of the routes file returns (\<open>None\<close>) or throws an
  error; the \<^verbatim>\<open>try\<close> around the call catches what it throws.
  \<^verbatim>\<open>localUtils.handlePermissions\<close> is a parameter too, the timestamp
  \<^verbatim>\<open>moment().format('YYYY-MM-DD-HH-mm-ss')\<close> is the argument \<open>now\<close>, and \<open>faults\<close> says
  what the platform does to each of the three copies: the backup, the replacement and
  the restoration. The result is the events, the files at the end and the outcome. No
  step undoes a copy that failed.
\<close>

record copy_faults =
  backup_fault :: "copy_fault option"
  replace_fault :: "copy_fault option"
  restore_fault :: "copy_fault option"

definition upload ::
  "(string \<Rightarrow> action \<Rightarrow> options \<Rightarrow> error option) \<Rightarrow> (string option \<Rightarrow> error option)
     \<Rightarrow> copy_faults \<Rightarrow> string \<Rightarrow> string \<Rightarrow> files \<Rightarrow> options
     \<Rightarrow> event list \<times> files \<times> unit outcome" where
  "upload handlePermissions reload faults contentPath now fs options =
     (let routes = contentPath @ ''/routes.yaml'';
          backupRoutesPath = path_join contentPath (''routes-'' @ now @ ''.yaml'')
      in case handlePermissions ''settings'' Edit options of
           Some e \<Rightarrow> ([HandlePermissions Edit], fs, Rejects e)
         | None \<Rightarrow>
         (case fs_copy (backup_fault faults) routes backupRoutesPath fs of
           (fs1, Some e) \<Rightarrow>
             ([HandlePermissions Edit, Copy routes backupRoutesPath], fs1, Rejects e)
         | (fs1, None) \<Rightarrow>
         (case fs_copy (replace_fault faults) (opt_path options) routes fs1 of
           (fs2, Some e) \<Rightarrow>
             ([HandlePermissions Edit, Copy routes backupRoutesPath,
               Copy (opt_path options) routes], fs2, Rejects e)
         | (fs2, None) \<Rightarrow>
         (case reload (fs2 routes) of
           None \<Rightarrow>
             ([HandlePermissions Edit, Copy routes backupRoutesPath,
               Copy (opt_path options) routes, ResetGenerators, Reload (fs2 routes)],
              fs2, Resolves ())
         | Some err \<Rightarrow>
         (case fs_copy (restore_fault faults) backupRoutesPath routes fs2 of
           (fs3, Some e) \<Rightarrow>
             ([HandlePermissions Edit, Copy routes backupRoutesPath,
               Copy (opt_path options) routes, ResetGenerators, Reload (fs2 routes),
               Copy backupRoutesPath routes], fs3, Rejects e)
         | (fs3, None) \<Rightarrow>
             ([HandlePermissions Edit, Copy routes backupRoutesPath,
               Copy (opt_path options) routes, ResetGenerators, Reload (fs2 routes),
               Copy backupRoutesPath routes, Reload (fs3 routes)], fs3,
              (case reload (fs3 routes) of
                 Some err2 \<Rightarrow> Rejects err2
               | None \<Rightarrow> Rejects err)))))))"

text \<open>
  \<^verbatim>\<open>download\<close>: \<^verbatim>\<open>fs.readFile\<close> is a parameter, failing with an error or returning the
  text of the file. The \<^verbatim>\<open>catch\<close> handles the rejection of the permission handler as
  well as that of the read. A missing file resolves with the empty array.
\<close>

datatype download_result = Contents string | Empty_array

definition download ::
  "(string \<Rightarrow> action \<Rightarrow> options \<Rightarrow> error option) \<Rightarrow> (string \<Rightarrow> error + string)
     \<Rightarrow> string \<Rightarrow> options \<Rightarrow> event list \<times> download_result outcome" where
  "download handlePermissions readFile contentPath options =
     (let routesPath = path_join contentPath ''routes.yaml'';
          attempt =
            (case handlePermissions ''settings'' Browse options of
               Some e \<Rightarrow> ([HandlePermissions Browse], Inl e)
             | None \<Rightarrow> ([HandlePermissions Browse, ReadFile routesPath], readFile routesPath))
      in (fst attempt,
          (case snd attempt of
             Inr contents \<Rightarrow> Resolves (Contents contents)
           | Inl err \<Rightarrow>
               if code err = Some ''ENOENT'' then Resolves Empty_array
               else if isIgnitionError err then Rejects err
               else Rejects (NotFoundError None (Some err)))))"

section \<open>Observations on checks and events\<close>

text \<open>
  A check fails when its promise is or becomes rejected. The persistence collaborator
  was invoked when the events hold a call of \<^verbatim>\<open>models.Settings.edit\<close>.
\<close>

fun fails :: "check \<Rightarrow> bool" where
  "fails (Already_rejected e) = True"
| "fails (Pending r) = (r \<noteq> None)"

fun is_ModelsEdit :: "event \<Rightarrow> bool" where
  "is_ModelsEdit (ModelsEdit sets options) = True"
| "is_ModelsEdit ev = False"

definition persisted :: "event list \<Rightarrow> bool" where
  "persisted evs = (filter is_ModelsEdit evs \<noteq> [])"

fun is_pending :: "check \<Rightarrow> bool" where
  "is_pending (Pending r) = True"
| "is_pending c = False"

text \<open>The engine was consulted about a key when the events hold a question about it.\<close>

fun asks_about :: "string \<Rightarrow> event \<Rightarrow> bool" where
  "asks_about k (CanThis c act q) = (q = Some k)"
| "asks_about k ev = False"

definition consulted :: "string \<Rightarrow> event list \<Rightarrow> bool" where
  "consulted k evs = (filter (asks_about k) evs \<noteq> [])"

text \<open>A copy fails midway when the platform leaves a partial destination.\<close>

fun partial_write :: "copy_fault option \<Rightarrow> bool" where
  "partial_write (Some (Partial written e)) = True"
| "partial_write fault = False"

section \<open>Example data\<close>

text \<open>
  A small cache, a context of an external request and an internal one, and collaborators
  that let everything through: an engine that allows, a checker that returns the
  settings it was given, a model that returns them with the access class the cache has
  for their key, a serializer that knows the empty object. \<open>reserved_core_cache\<close> and
  \<open>core_type_cache\<close> are caches whose settings \<^verbatim>\<open>permalinks\<close>, \<^verbatim>\<open>active_theme\<close> and
  \<^verbatim>\<open>type\<close> are core settings. For the
  routes file: a content folder with a good \<^verbatim>\<open>routes.yaml\<close> (and one with a broken
  one), an uploaded file that the site application cannot load, a platform that fails
  no copy, and a read that fails for want of access.
\<close>

definition example_cache :: cache where
  "example_cache =
     [\<lparr>key = ''title'', value = JString ''Ghost'', type = Some ''blog''\<rparr>,
      \<lparr>key = ''db_hash'', value = JString ''abc'', type = Some ''core''\<rparr>,
      \<lparr>key = ''active_theme'', value = JString ''casper'', type = Some ''theme''\<rparr>,
      \<lparr>key = ''permalinks'', value = JString ''/:slug/'', type = Some ''blog''\<rparr>]"

definition external_options :: jsvalue where
  "external_options = JObject [(''context'', JObject [(''user'', JNumber 1)])]"

definition internal_options :: jsvalue where
  "internal_options = JObject [(''context'', JObject [(''internal'', JBool True)])]"

definition allow :: engine where
  "allow context act k = None"

definition deny :: engine where
  "deny context act k = Some (NoPermissionError (T ''denied''))"

definition example_stringify :: "jsvalue \<Rightarrow> string" where
  "example_stringify v = (if v = JObject [] then ''{}'' else ''null'')"

definition example_checkObject :: "setting list \<Rightarrow> error + setting list" where
  "example_checkObject sets = Inr sets"

definition example_models_edit :: "setting list \<Rightarrow> jsvalue \<Rightarrow> error + setting list" where
  "example_models_edit sets options =
     Inr (map (\<lambda>s. s\<lparr>type := (case settingsCache_get example_cache (key s) of
                                   None \<Rightarrow> None | Some c \<Rightarrow> type c)\<rparr>) sets)"

definition reserved_core_cache :: cache where
  "reserved_core_cache =
     [\<lparr>key = ''permalinks'', value = JString ''/:slug/'', type = Some ''core''\<rparr>,
      \<lparr>key = ''active_theme'', value = JString ''casper'', type = Some ''core''\<rparr>,
      \<lparr>key = ''type'', value = JString ''self-hosted'', type = Some ''core''\<rparr>]"

definition permitted :: "string \<Rightarrow> action \<Rightarrow> options \<Rightarrow> error option" where
  "permitted doc act options = None"

definition example_files :: files where
  "example_files =
     [''content/settings/routes.yaml'' \<mapsto> ''routes: good'',
      ''/tmp/upload.yaml'' \<mapsto> ''routes: bad'']"

definition example_reload :: "string option \<Rightarrow> error option" where
  "example_reload contents =
     (if contents = Some ''routes: good''
      then None
      else Some (ValidationError (T ''errors.services.settings.yaml.error'')))"

definition broken_files :: files where
  "broken_files =
     [''content/settings/routes.yaml'' \<mapsto> ''routes: broken'',
      ''/tmp/upload.yaml'' \<mapsto> ''routes: bad'']"

definition no_faults :: copy_faults where
  "no_faults = \<lparr>backup_fault = None, replace_fault = None, restore_fault = None\<rparr>"

definition core_type_cache :: cache where
  "core_type_cache =
     [\<lparr>key = ''type'', value = JString ''self-hosted'', type = Some ''core''\<rparr>,
      \<lparr>key = ''title'', value = JString ''Ghost'', type = Some ''blog''\<rparr>]"

definition upload_options :: options where
  "upload_options = no_options\<lparr>opt_path := ''/tmp/upload.yaml''\<rparr>"

definition no_access :: "string \<Rightarrow> error + string" where
  "no_access path = Inl (NodeError ''EACCES'')"

section \<open>Lemmas\<close>

lemmas example_defs =
  example_cache_def reserved_core_cache_def external_options_def internal_options_def
  allow_def deny_def example_stringify_def example_checkObject_def example_models_edit_def
  permitted_def example_files_def example_reload_def upload_options_def no_access_def
  no_options_def broken_files_def no_faults_def core_type_cache_def

lemmas edit_defs =
  edit_def normalize_edit_def default_options_def type_hint_def clean_def
  JSON_stringify_def canEditAllSettings_def checkSetting_def checkSettingPermissions_def Promise_all_def
  settingsCache_get_def internal_def settingsResult_def settingsFilter_def keyBy_def

lemma settingsCache_get_key: "settingsCache_get cache k = Some setting \<Longrightarrow> key setting = k"
  by (auto simp: settingsCache_get_def find_Some_iff)

lemma key_clean: "key (clean stringify s) = key s"
  by (simp add: clean_def)


lemma filter_clean:
  "filter (\<lambda>s. key s \<noteq> k) (map (clean stringify) sets) =
   map (clean stringify) (filter (\<lambda>s. key s \<noteq> k) sets)"
  by (induction sets) (simp_all add: key_clean)


lemma normalize_edit_Object:
  "normalize_edit stringify (Object sets) options =
     (default_options options, type_hint (map (clean stringify) sets),
      map (clean stringify) (filter (\<lambda>s. key s \<noteq> ''type'') sets))"
  by (simp add: normalize_edit_def Let_def filter_clean)

lemma normalize_edit_options:
  "fst (normalize_edit stringify object options0) = default_options options0"
  by (simp add: normalize_edit_def Let_def)

text \<open>The checks consult the engine only, each for the key of its own entry.\<close>

lemma checkSetting_event_shape:
  "ev \<in> set (fst (checkSetting cache canThis options s)) \<Longrightarrow>
   ev = CanThis (property options ''context'') Edit (Some (key s))"
  by (auto simp: checkSetting_def checkSettingPermissions_def
      split: option.splits if_splits dest: settingsCache_get_key)

lemma canEditAllSettings_event_shape:
  "ev \<in> set (fst (canEditAllSettings cache canThis sets options)) \<Longrightarrow>
   \<exists>s\<in>set sets. ev = CanThis (property options ''context'') Edit (Some (key s))"
  by (auto simp: canEditAllSettings_def Let_def dest: checkSetting_event_shape)

lemma canEditAllSettings_not_persisted:
  "\<not> persisted (fst (canEditAllSettings cache canThis sets options))"
  by (auto simp: persisted_def filter_empty_conv dest: canEditAllSettings_event_shape)

text \<open>\<^verbatim>\<open>Promise.all\<close> resolves only when no check fails.\<close>

lemma first_rejected_None:
  "first_rejected cs = None \<Longrightarrow> c \<in> set cs \<Longrightarrow> \<exists>r. c = Pending r"
  by (induction cs rule: first_rejected.induct) auto

lemma first_failed_None: "first_failed cs = None \<Longrightarrow> Pending (Some e) \<notin> set cs"
  by (induction cs rule: first_failed.induct) auto

lemma first_rejected_pending:
  "list_all is_pending cs \<Longrightarrow> first_rejected (cs @ ds) = first_rejected ds"
  by (induction cs rule: first_rejected.induct) auto

lemma Promise_all_None:
  assumes "Promise_all cs = None" and "c \<in> set cs"
  shows "\<not> fails c"
proof -
  from assms(1) have none: "first_rejected cs = None" "first_failed cs = None"
    by (auto simp: Promise_all_def split: option.splits)
  from first_rejected_None [OF none(1) assms(2)] obtain r where c: "c = Pending r" ..
  show ?thesis
  proof (cases r)
    case None
    with c show ?thesis by simp
  next
    case (Some e)
    with c assms(2) first_failed_None [OF none(2), of e] show ?thesis by simp
  qed
qed

lemma canEditAllSettings_None:
  "snd (canEditAllSettings cache canThis sets options) = None \<Longrightarrow> s \<in> set sets \<Longrightarrow>
   \<not> fails (snd (checkSetting cache canThis options s))"
  by (auto simp: canEditAllSettings_def Let_def dest!: Promise_all_None)

lemma checkSetting_core:
  assumes "settingsCache_get cache (key info) = Some setting"
    and "type setting = Some ''core''"
    and "\<not> internal (property options ''context'')"
  shows "fails (snd (checkSetting cache canThis options info))"
  using assms by (simp add: checkSetting_def checkSettingPermissions_def)

lemma checkSetting_core_events:
  assumes "settingsCache_get cache (key info) = Some setting"
    and "type setting = Some ''core''"
    and "\<not> internal (property options ''context'')"
  shows "fst (checkSetting cache canThis options info) = []"
  using assms by (simp add: checkSetting_def checkSettingPermissions_def)

lemma canEditAllSettings_core_not_consulted:
  assumes "settingsCache_get cache k = Some setting"
    and "type setting = Some ''core''"
    and "\<not> internal (property options ''context'')"
  shows "\<not> consulted k (fst (canEditAllSettings cache canThis sets options))"
proof -
  have "\<not> asks_about k ev"
    if ev: "ev \<in> set (fst (canEditAllSettings cache canThis sets options))" for ev
  proof
    assume asks: "asks_about k ev"
    from ev obtain s where s: "s \<in> set sets"
      and evs: "ev \<in> set (fst (checkSetting cache canThis options s))"
      by (auto simp: canEditAllSettings_def Let_def)
    from checkSetting_event_shape [OF evs] asks have "key s = k" by simp
    with assms have "fst (checkSetting cache canThis options s) = []"
      by (simp add: checkSetting_core_events)
    with evs show False by simp
  qed
  then show ?thesis by (auto simp: consulted_def filter_empty_conv)
qed

lemma checkSetting_active_theme:
  "key info = ''active_theme'' \<Longrightarrow> fails (snd (checkSetting cache canThis options info))"
  by (auto simp: checkSetting_def split: option.splits dest: settingsCache_get_key)

lemma checkSetting_active_theme_known:
  "key info = ''active_theme'' \<Longrightarrow> settingsCache_get cache ''active_theme'' = Some s \<Longrightarrow>
   snd (checkSetting cache canThis options info) =
     Already_rejected (BadRequestError
                         (T ''errors.api.settings.activeThemeSetViaAPI.error'')
                         (T ''errors.api.settings.activeThemeSetViaAPI.help''))"
  by (auto simp: checkSetting_def split: option.splits dest: settingsCache_get_key)

text \<open>What \<^verbatim>\<open>edit\<close> does once the batch is normalized.\<close>

lemma edit_failed_authorization:
  assumes "normalize_edit stringify object options0 = (options, tp, sets)"
    and "sets \<noteq> []"
    and "snd (canEditAllSettings cache canThis sets options) \<noteq> None"
  shows "(\<exists>e. snd (edit cache canThis stringify checkObject models_edit object options0)
                = Rejects e)
         \<and> \<not> persisted (fst (edit cache canThis stringify checkObject models_edit
                               object options0))"
proof -
  from assms(2) obtain first rest where sets: "sets = first # rest"
    by (cases sets) auto
  show ?thesis
  proof (cases "key first = ''permalinks''")
    case True
    with assms(1) sets show ?thesis
      by (simp add: edit_def persisted_def)
  next
    case False
    from assms(3) obtain evs e
      where can: "canEditAllSettings cache canThis sets options = (evs, Some e)"
      by (cases "canEditAllSettings cache canThis sets options") auto
    from can canEditAllSettings_not_persisted [of cache canThis sets options]
    have "\<not> persisted evs" by simp
    with assms(1) sets False can show ?thesis
      by (simp add: edit_def)
  qed
qed

lemma edit_events_cases:
  assumes "normalize_edit stringify object options0 = (options, tp, sets)"
  shows "fst (edit cache canThis stringify checkObject models_edit object options0) = []
       \<or> fst (edit cache canThis stringify checkObject models_edit object options0)
           = fst (canEditAllSettings cache canThis sets options)
       \<or> fst (edit cache canThis stringify checkObject models_edit object options0)
           = fst (canEditAllSettings cache canThis sets options) @ [CheckObject sets]
       \<or> (\<exists>checked. checkObject sets = Inr checked
            \<and> fst (edit cache canThis stringify checkObject models_edit object options0)
               = fst (canEditAllSettings cache canThis sets options)
                   @ [CheckObject sets, ModelsEdit checked options])"
  using assms
  by (simp add: edit_def split: list.split prod.split option.split sum.split)


text \<open>The backup is never the routes file itself.\<close>

lemma backup_not_routes:
  "path_join contentPath (''routes-'' @ now @ ''.yaml'') \<noteq> contentPath @ ''/routes.yaml''"
  by (simp add: path_join_def)

section \<open>Core settings and callers that are not internal\<close>

text \<open>
  C1, as amended. For a core setting and a context that is not internal (an absent one
  included), whatever the engine would say: \<^verbatim>\<open>read\<close> is rejected with the permission
  error for core settings, and the engine is not consulted. An \<^verbatim>\<open>edit\<close> whose batch,
  once the entries of key \<^verbatim>\<open>type\<close> are removed, holds an entry for the setting is
  rejected, persists nothing and never consults the engine about that key. It is
  rejected with the same permission error when the key is not \<^verbatim>\<open>active_theme\<close>, the
  first entry of the batch is not \<^verbatim>\<open>permalinks\<close>, and no entry before it is rejected
  at once (as an unknown key and \<^verbatim>\<open>active_theme\<close> are, with errors of their own).
\<close>

theorem core_setting_denied:
  assumes "settingsCache_get cache k = Some setting" and "type setting = Some ''core''"
  shows "(opt_key options = k \<and> \<not> internal (opt_context options) \<longrightarrow>
            read cache canThis (Options options)
              = ([], Rejects (NoPermissionError
                    (T ''errors.api.settings.accessCoreSettingFromExtReq''))))
       \<and> (normalize_edit stringify object options0 = (eoptions, tp, pre @ info # post)
            \<and> key info = k \<and> \<not> internal (property eoptions ''context'') \<longrightarrow>
            (\<exists>e. snd (edit cache canThis stringify checkObject models_edit object options0)
                   = Rejects e)
            \<and> \<not> persisted (fst (edit cache canThis stringify checkObject models_edit
                                  object options0))
            \<and> \<not> consulted k (fst (edit cache canThis stringify checkObject models_edit
                                    object options0))
            \<and> (k \<noteq> ''active_theme'' \<and> key (hd (pre @ [info])) \<noteq> ''permalinks''
                 \<and> list_all (\<lambda>p. is_pending (snd (checkSetting cache canThis eoptions p))) pre
               \<longrightarrow> snd (edit cache canThis stringify checkObject models_edit object options0)
                   = Rejects (NoPermissionError
                       (T ''errors.api.settings.accessCoreSettingFromExtReq''))))"
proof (intro conjI impI)
  assume "opt_key options = k \<and> \<not> internal (opt_context options)"
  with assms show "read cache canThis (Options options)
              = ([], Rejects (NoPermissionError
                    (T ''errors.api.settings.accessCoreSettingFromExtReq'')))"
    by (simp add: read_def)
next
  let ?sets = "pre @ info # post"
  let ?denied = "NoPermissionError (T ''errors.api.settings.accessCoreSettingFromExtReq'')"
  let ?edit = "edit cache canThis stringify checkObject models_edit object options0"
  assume h: "normalize_edit stringify object options0 = (eoptions, tp, pre @ info # post)
            \<and> key info = k \<and> \<not> internal (property eoptions ''context'')"
  then have n: "normalize_edit stringify object options0 = (eoptions, tp, ?sets)"
    and info: "key info = k" and ext: "\<not> internal (property eoptions ''context'')"
    by simp_all
  have mem: "info \<in> set ?sets" and ne: "?sets \<noteq> []" by simp_all
  from assms info ext have "fails (snd (checkSetting cache canThis eoptions info))"
    by (simp add: checkSetting_core)
  with canEditAllSettings_None [of cache canThis ?sets eoptions info] mem
  have "snd (canEditAllSettings cache canThis ?sets eoptions) \<noteq> None" by blast
  note a = edit_failed_authorization [OF n ne this, of checkObject models_edit]
  from a show "\<exists>e. snd ?edit = Rejects e" by blast
  from a show "\<not> persisted (fst ?edit)" by blast
  from assms ext
  have "\<not> consulted k (fst (canEditAllSettings cache canThis ?sets eoptions))"
    by (rule canEditAllSettings_core_not_consulted)
  with edit_events_cases [OF n, of cache canThis checkObject models_edit]
  show "\<not> consulted k (fst ?edit)"
    by (auto simp: consulted_def)
  assume c: "k \<noteq> ''active_theme'' \<and> key (hd (pre @ [info])) \<noteq> ''permalinks''
                 \<and> list_all (\<lambda>p. is_pending (snd (checkSetting cache canThis eoptions p))) pre"
  from assms info ext c
  have chk: "snd (checkSetting cache canThis eoptions info) = Already_rejected ?denied"
    by (auto simp: checkSetting_def checkSettingPermissions_def
        dest: settingsCache_get_key)
  from c
  have "list_all is_pending (map (\<lambda>p. snd (checkSetting cache canThis eoptions p)) pre)"
    by (simp add: list_all_iff)
  from first_rejected_pending [OF this]
  have "first_rejected (map (\<lambda>p. snd (checkSetting cache canThis eoptions p)) ?sets)
          = Some ?denied"
    using chk by simp
  then have p: "snd (canEditAllSettings cache canThis ?sets eoptions) = Some ?denied"
    by (simp add: canEditAllSettings_def Promise_all_def comp_def)
  obtain first rest where fr: "?sets = first # rest" by (cases ?sets) auto
  then have "first = hd (pre @ [info])" by (cases pre) auto
  with c have nk: "key first \<noteq> ''permalinks''" by simp
  obtain evs where "canEditAllSettings cache canThis ?sets eoptions = (evs, Some ?denied)"
    using p by (cases "canEditAllSettings cache canThis ?sets eoptions") auto
  with n fr nk show "snd ?edit = Rejects ?denied"
    by (simp add: edit_def)
qed

theorem core_setting_denied_witness:
  "read example_cache allow (Options (no_options\<lparr>opt_key := ''db_hash''\<rparr>))
     = ([], Rejects (NoPermissionError (T ''errors.api.settings.accessCoreSettingFromExtReq'')))
   \<and> snd (edit example_cache allow example_stringify example_checkObject
            example_models_edit
            (Object [\<lparr>key = ''title'', value = JString ''X'', type = None\<rparr>,
                     \<lparr>key = ''db_hash'', value = JString ''Y'', type = None\<rparr>])
            external_options)
       = Rejects (NoPermissionError (T ''errors.api.settings.accessCoreSettingFromExtReq''))
   \<and> \<not> persisted (fst (edit example_cache allow example_stringify example_checkObject
            example_models_edit
            (Object [\<lparr>key = ''title'', value = JString ''X'', type = None\<rparr>,
                     \<lparr>key = ''db_hash'', value = JString ''Y'', type = None\<rparr>])
            external_options))
   \<and> \<not> consulted ''db_hash'' (fst (edit example_cache allow example_stringify
            example_checkObject example_models_edit
            (Object [\<lparr>key = ''title'', value = JString ''X'', type = None\<rparr>,
                     \<lparr>key = ''db_hash'', value = JString ''Y'', type = None\<rparr>])
            external_options))"
proof -
  let ?x = "\<lparr>key = ''title'', value = JString ''X'', type = None\<rparr>"
  let ?y = "\<lparr>key = ''db_hash'', value = JString ''Y'', type = None\<rparr>"
  let ?options = "no_options\<lparr>opt_key := ''db_hash''\<rparr>"
  have a: "settingsCache_get example_cache ''db_hash''
             = Some \<lparr>key = ''db_hash'', value = JString ''abc'', type = Some ''core''\<rparr>"
    by (simp add: settingsCache_get_def example_cache_def)
  have b: "type \<lparr>key = ''db_hash'', value = JString ''abc'', type = Some ''core''\<rparr>
             = Some ''core''"
    by simp
  have r: "opt_key ?options = ''db_hash'' \<and> \<not> internal (opt_context ?options)"
    by (simp add: no_options_def internal_def)
  have n: "normalize_edit example_stringify (Object [?x, ?y]) external_options
             = (external_options, None, [?x] @ ?y # [])
           \<and> key ?y = ''db_hash''
           \<and> \<not> internal (property external_options ''context'')"
    by (simp add: normalize_edit_Object default_options_def external_options_def clean_def
        type_hint_def internal_def)
  have c: "''db_hash'' \<noteq> ''active_theme'' \<and> key (hd ([?x] @ [?y])) \<noteq> ''permalinks''
           \<and> list_all (\<lambda>p. is_pending (snd (checkSetting example_cache allow
                                               external_options p))) [?x]"
    by (simp add: checkSetting_def settingsCache_get_def example_cache_def
        checkSettingPermissions_def)
  from r n c core_setting_denied [OF a b, where options = ?options and canThis = allow
      and stringify = example_stringify and object = "Object [?x, ?y]"
      and ?options0.0 = external_options and eoptions = external_options and tp = None
      and pre = "[?x]" and info = ?y and post = "[]" and checkObject = example_checkObject
      and models_edit = example_models_edit]
  show ?thesis by blast
qed

text \<open>
  The claim as it was stated fails where \<^verbatim>\<open>edit\<close> answers something else first. From an
  external caller: the edit of a core \<^verbatim>\<open>permalinks\<close> gets the not-found error and that
  of a core \<^verbatim>\<open>active_theme\<close> the bad-request error; the edit of a batch with an unknown
  key before the core setting gets the not-found error of that key; and a core setting
  named \<^verbatim>\<open>type\<close> is dropped from the batch, so that the edit of it with a title is
  persisted and resolves.
\<close>

theorem core_setting_edit_counterexample:
  "\<not> internal (property (default_options external_options) ''context'')
   \<and> map type reserved_core_cache = [Some ''core'', Some ''core'', Some ''core'']
   \<and> edit reserved_core_cache deny example_stringify example_checkObject example_models_edit
        (Object [\<lparr>key = ''permalinks'', value = JString ''/:year/'', type = None\<rparr>])
        external_options
      = ([], Rejects (NotFoundError (Some (T ''errors.errors.resourceNotFound'')) None))
   \<and> edit reserved_core_cache deny example_stringify example_checkObject example_models_edit
        (Object [\<lparr>key = ''active_theme'', value = JString ''lyra'', type = None\<rparr>])
        external_options
      = ([], Rejects (BadRequestError
                        (T ''errors.api.settings.activeThemeSetViaAPI.error'')
                        (T ''errors.api.settings.activeThemeSetViaAPI.help'')))
   \<and> edit example_cache allow example_stringify example_checkObject example_models_edit
        (Object [\<lparr>key = ''no_such_key'', value = JString ''X'', type = None\<rparr>,
                 \<lparr>key = ''db_hash'', value = JString ''Y'', type = None\<rparr>])
        external_options
      = ([], Rejects (NotFoundError
                        (Some (T_key ''errors.api.settings.problemFindingSetting''
                                 ''no_such_key'')) None))
   \<and> settingsCache_get core_type_cache ''type''
      = Some \<lparr>key = ''type'', value = JString ''self-hosted'', type = Some ''core''\<rparr>
   \<and> persisted (fst (edit core_type_cache allow example_stringify example_checkObject
        example_models_edit
        (Object [\<lparr>key = ''type'', value = JString ''hosted'', type = None\<rparr>,
                 \<lparr>key = ''title'', value = JString ''X'', type = None\<rparr>])
        external_options))
   \<and> (\<exists>result. snd (edit core_type_cache allow example_stringify example_checkObject
        example_models_edit
        (Object [\<lparr>key = ''type'', value = JString ''hosted'', type = None\<rparr>,
                 \<lparr>key = ''title'', value = JString ''X'', type = None\<rparr>])
        external_options) = Resolves result)"
  by (simp add: edit_defs example_defs persisted_def)

section \<open>Upload: the rollback\<close>

text \<open>
  C2, as amended. An upload over an existing routes file, whose backup and replacement
  succeed and whose reload then fails. The backup holds the former contents. If the copy
  of the backup over the routes file succeeds, the routes file has its former contents
  again, the application is reloaded a second time on them, and only then is the promise
  rejected, with the error of the first reload, or with that of the second reload when
  it fails too; nothing follows the second reload. If that copy fails, the promise is
  rejected with the error of the copy, the application is not reloaded again, and the
  routes file is as the copy left it: with the uploaded contents, or with what the copy
  had written.
\<close>

theorem upload_rollback:
  assumes "handlePermissions ''settings'' Edit options = None"
    and "fs (contentPath @ ''/routes.yaml'') = Some a"
    and "backup_fault faults = None"
    and "fs_copy (replace_fault faults) (opt_path options) (contentPath @ ''/routes.yaml'')
           (fs(path_join contentPath (''routes-'' @ now @ ''.yaml'') \<mapsto> a)) = (fs2, None)"
    and "reload (fs2 (contentPath @ ''/routes.yaml'')) = Some err"
  shows "fs2 (path_join contentPath (''routes-'' @ now @ ''.yaml'')) = Some a
       \<and> upload handlePermissions reload faults contentPath now fs options
         = (case restore_fault faults of
              None \<Rightarrow>
                ([HandlePermissions Edit,
                  Copy (contentPath @ ''/routes.yaml'')
                       (path_join contentPath (''routes-'' @ now @ ''.yaml'')),
                  Copy (opt_path options) (contentPath @ ''/routes.yaml''),
                  ResetGenerators, Reload (fs2 (contentPath @ ''/routes.yaml'')),
                  Copy (path_join contentPath (''routes-'' @ now @ ''.yaml''))
                       (contentPath @ ''/routes.yaml''),
                  Reload (Some a)],
                 fs2(contentPath @ ''/routes.yaml'' \<mapsto> a),
                 (case reload (Some a) of None \<Rightarrow> Rejects err | Some err2 \<Rightarrow> Rejects err2))
            | Some (Fails e) \<Rightarrow>
                ([HandlePermissions Edit,
                  Copy (contentPath @ ''/routes.yaml'')
                       (path_join contentPath (''routes-'' @ now @ ''.yaml'')),
                  Copy (opt_path options) (contentPath @ ''/routes.yaml''),
                  ResetGenerators, Reload (fs2 (contentPath @ ''/routes.yaml'')),
                  Copy (path_join contentPath (''routes-'' @ now @ ''.yaml''))
                       (contentPath @ ''/routes.yaml'')],
                 fs2, Rejects e)
            | Some (Partial written e) \<Rightarrow>
                ([HandlePermissions Edit,
                  Copy (contentPath @ ''/routes.yaml'')
                       (path_join contentPath (''routes-'' @ now @ ''.yaml'')),
                  Copy (opt_path options) (contentPath @ ''/routes.yaml''),
                  ResetGenerators, Reload (fs2 (contentPath @ ''/routes.yaml'')),
                  Copy (path_join contentPath (''routes-'' @ now @ ''.yaml''))
                       (contentPath @ ''/routes.yaml'')],
                 fs2(contentPath @ ''/routes.yaml'' \<mapsto> written), Rejects e))"
proof -
  let ?routes = "contentPath @ ''/routes.yaml''"
  let ?backup = "path_join contentPath (''routes-'' @ now @ ''.yaml'')"
  note ne = backup_not_routes [of contentPath now]
  from assms(2,3) ne have c1: "fs_copy (backup_fault faults) ?routes ?backup fs
                                 = (fs(?backup \<mapsto> a), None)"
    by (auto simp: fs_copy_def)
  from assms(4) ne have b: "fs2 ?backup = Some a"
    by (auto simp: fs_copy_def split: if_splits option.splits copy_fault.splits)
  from b ne have c3: "fs_copy (restore_fault faults) ?backup ?routes fs2
      = (case restore_fault faults of
           None \<Rightarrow> (fs2(?routes \<mapsto> a), None)
         | Some (Fails e) \<Rightarrow> (fs2, Some e)
         | Some (Partial written e) \<Rightarrow> (fs2(?routes \<mapsto> written), Some e))"
    by (simp add: fs_copy_def)
  from assms(1,4,5) c1 c3
  have "upload handlePermissions reload faults contentPath now fs options
         = (case restore_fault faults of
              None \<Rightarrow>
                ([HandlePermissions Edit, Copy ?routes ?backup, Copy (opt_path options) ?routes,
                  ResetGenerators, Reload (fs2 ?routes), Copy ?backup ?routes, Reload (Some a)],
                 fs2(?routes \<mapsto> a),
                 (case reload (Some a) of None \<Rightarrow> Rejects err | Some err2 \<Rightarrow> Rejects err2))
            | Some (Fails e) \<Rightarrow>
                ([HandlePermissions Edit, Copy ?routes ?backup, Copy (opt_path options) ?routes,
                  ResetGenerators, Reload (fs2 ?routes), Copy ?backup ?routes],
                 fs2, Rejects e)
            | Some (Partial written e) \<Rightarrow>
                ([HandlePermissions Edit, Copy ?routes ?backup, Copy (opt_path options) ?routes,
                  ResetGenerators, Reload (fs2 ?routes), Copy ?backup ?routes],
                 fs2(?routes \<mapsto> written), Rejects e))"
    by (simp add: upload_def Let_def split: option.split copy_fault.split)
  with b show ?thesis by simp
qed

theorem upload_rollback_witness:
  "upload permitted example_reload no_faults ''content/settings'' ''2019-01-01-00-00-00''
     example_files upload_options
   = ([HandlePermissions Edit,
       Copy ''content/settings/routes.yaml''
            ''content/settings/routes-2019-01-01-00-00-00.yaml'',
       Copy ''/tmp/upload.yaml'' ''content/settings/routes.yaml'',
       ResetGenerators, Reload (Some ''routes: bad''),
       Copy ''content/settings/routes-2019-01-01-00-00-00.yaml''
            ''content/settings/routes.yaml'',
       Reload (Some ''routes: good'')],
      example_files
        (''content/settings/routes-2019-01-01-00-00-00.yaml'' \<mapsto> ''routes: good'',
         ''content/settings/routes.yaml'' \<mapsto> ''routes: good''),
      Rejects (ValidationError (T ''errors.services.settings.yaml.error'')))"
proof -
  let ?routes = "''content/settings/routes.yaml''"
  let ?backup = "''content/settings/routes-2019-01-01-00-00-00.yaml''"
  let ?fs2 = "example_files(?backup \<mapsto> ''routes: good'', ?routes \<mapsto> ''routes: bad'')"
  have p: "permitted ''settings'' Edit upload_options = None"
    by (simp add: permitted_def)
  have a: "example_files (''content/settings'' @ ''/routes.yaml'') = Some ''routes: good''"
    by (simp add: example_files_def)
  have f: "backup_fault no_faults = None"
    by (simp add: no_faults_def)
  have c: "fs_copy (replace_fault no_faults) (opt_path upload_options)
             (''content/settings'' @ ''/routes.yaml'')
             (example_files(path_join ''content/settings''
                              (''routes-'' @ ''2019-01-01-00-00-00'' @ ''.yaml'')
                            \<mapsto> ''routes: good'')) = (?fs2, None)"
    by (simp add: fs_copy_def no_faults_def upload_options_def example_files_def
        path_join_def)
  have r: "example_reload (?fs2 (''content/settings'' @ ''/routes.yaml''))
             = Some (ValidationError (T ''errors.services.settings.yaml.error''))"
    by (simp add: example_reload_def)
  from upload_rollback [where handlePermissions = permitted and reload = example_reload
      and faults = no_faults and contentPath = "''content/settings''"
      and now = "''2019-01-01-00-00-00''" and fs = example_files
      and options = upload_options and a = "''routes: good''" and ?fs2.0 = ?fs2
      and err = "ValidationError (T ''errors.services.settings.yaml.error'')",
      OF p a f c r]
  show ?thesis
    by (simp add: path_join_def upload_options_def example_reload_def no_faults_def)
qed

text \<open>
  The claim as it was stated fails when the copy of the backup over the routes file
  fails: the routes file keeps the uploaded contents, the application is reloaded once
  only, and the caller gets the error of the copy, not that of the reload.
\<close>

theorem upload_rollback_counterexample:
  "upload permitted example_reload
     (no_faults\<lparr>restore_fault := Some (Fails (NodeError ''EACCES''))\<rparr>)
     ''content/settings'' ''2019-01-01-00-00-00'' example_files upload_options
   = ([HandlePermissions Edit,
       Copy ''content/settings/routes.yaml''
            ''content/settings/routes-2019-01-01-00-00-00.yaml'',
       Copy ''/tmp/upload.yaml'' ''content/settings/routes.yaml'',
       ResetGenerators, Reload (Some ''routes: bad''),
       Copy ''content/settings/routes-2019-01-01-00-00-00.yaml''
            ''content/settings/routes.yaml''],
      example_files
        (''content/settings/routes-2019-01-01-00-00-00.yaml'' \<mapsto> ''routes: good'',
         ''content/settings/routes.yaml'' \<mapsto> ''routes: bad''),
      Rejects (NodeError ''EACCES''))"
  by (simp add: upload_def Let_def fs_copy_def path_join_def example_defs)

section \<open>Upload: the routes file stays loadable\<close>

text \<open>
  C3, as amended. If the site application can load the routes file as it is before an
  upload, the copy that replaces the routes file does not fail midway, and the copy that
  restores it does not fail, then the application can load the routes file as it is when
  the upload has ended, resolved or rejected; and the routes file then has either its
  former contents or those of the uploaded file.
\<close>

theorem upload_keeps_loadable:
  assumes "reload (fs (contentPath @ ''/routes.yaml'')) = None"
    and "\<not> partial_write (replace_fault faults)"
    and "restore_fault faults = None"
  shows "reload (fst (snd (upload handlePermissions reload faults contentPath now fs options))
                   (contentPath @ ''/routes.yaml'')) = None
       \<and> (fst (snd (upload handlePermissions reload faults contentPath now fs options))
             (contentPath @ ''/routes.yaml'') = fs (contentPath @ ''/routes.yaml'')
          \<or> fst (snd (upload handlePermissions reload faults contentPath now fs options))
             (contentPath @ ''/routes.yaml'') = fs (opt_path options))"
proof -
  let ?routes = "contentPath @ ''/routes.yaml''"
  let ?backup = "path_join contentPath (''routes-'' @ now @ ''.yaml'')"
  let ?up = "upload handlePermissions reload faults contentPath now fs options"
  note ne = backup_not_routes [of contentPath now]
  obtain fs1 r1 where c1: "fs_copy (backup_fault faults) ?routes ?backup fs = (fs1, r1)"
    by (cases "fs_copy (backup_fault faults) ?routes ?backup fs")
  from c1 ne have k1: "fs1 ?routes = fs ?routes"
    by (auto simp: fs_copy_def split: if_splits option.splits copy_fault.splits)
  from c1 ne have b1: "r1 = None \<Longrightarrow> fs1 ?backup = fs ?routes \<and> fs ?routes \<noteq> None"
    by (auto simp: fs_copy_def split: if_splits option.splits copy_fault.splits)
  from c1 ne have p1: "r1 = None \<Longrightarrow> opt_path options \<noteq> ?backup
                         \<Longrightarrow> fs1 (opt_path options) = fs (opt_path options)"
    by (auto simp: fs_copy_def split: if_splits option.splits copy_fault.splits)
  obtain fs2 r2
    where c2: "fs_copy (replace_fault faults) (opt_path options) ?routes fs1 = (fs2, r2)"
    by (cases "fs_copy (replace_fault faults) (opt_path options) ?routes fs1")
  from c2 assms(2) have k2: "r2 \<noteq> None \<Longrightarrow> fs2 ?routes = fs1 ?routes"
    by (cases "replace_fault faults" rule: partial_write.cases)
       (auto simp: fs_copy_def split: if_splits option.splits)
  from c2 have n2: "r2 = None \<Longrightarrow> fs2 ?routes = fs1 (opt_path options)"
    by (auto simp: fs_copy_def split: if_splits option.splits copy_fault.splits)
  from c2 ne have b2: "fs2 ?backup = fs1 ?backup"
    by (auto simp: fs_copy_def split: if_splits option.splits copy_fault.splits)
  have new: "fs2 ?routes = fs ?routes \<or> fs2 ?routes = fs (opt_path options)"
    if "r1 = None" "r2 = None"
    using that n2 b1 p1 by (cases "opt_path options = ?backup") auto
  have c3: "fs_copy (restore_fault faults) ?backup ?routes fs2
              = (fs2(?routes := fs ?routes), None)"
    if "r1 = None"
    using that b1 b2 ne assms(3) by (auto simp: fs_copy_def)
  show ?thesis
  proof (cases "handlePermissions ''settings'' Edit options")
    case (Some e)
    with assms(1) show ?thesis by (simp add: upload_def Let_def)
  next
    case perm: None
    show ?thesis
    proof (cases r1)
      case (Some e)
      with perm c1 k1 assms(1) show ?thesis by (simp add: upload_def Let_def)
    next
      case r1: None
      show ?thesis
      proof (cases r2)
        case (Some e)
        with perm r1 c1 c2 k1 k2 assms(1) show ?thesis by (simp add: upload_def Let_def)
      next
        case r2: None
        show ?thesis
        proof (cases "reload (fs2 ?routes)")
          case None
          with perm r1 r2 c1 c2 new [OF r1 r2] show ?thesis
            by (auto simp: upload_def Let_def)
        next
          case (Some err)
          with perm r1 r2 c1 c2 c3 [OF r1] assms(1) show ?thesis
            by (simp add: upload_def Let_def)
        qed
      qed
    qed
  qed
qed

theorem upload_keeps_loadable_witness:
  "example_reload (example_files ''content/settings/routes.yaml'') = None
   \<and> \<not> partial_write (replace_fault no_faults)
   \<and> example_reload
       (fst (snd (upload permitted example_reload no_faults ''content/settings''
                    ''2019-01-01-00-00-00'' example_files upload_options))
          ''content/settings/routes.yaml'') = None
   \<and> fst (snd (upload permitted example_reload no_faults ''content/settings''
                 ''2019-01-01-00-00-00'' example_files upload_options))
        ''content/settings/routes.yaml'' = Some ''routes: good''"
proof -
  have h: "example_reload (example_files (''content/settings'' @ ''/routes.yaml'')) = None"
    by (simp add: example_reload_def example_files_def)
  have p: "\<not> partial_write (replace_fault no_faults)"
    and r: "restore_fault no_faults = None"
    by (simp_all add: no_faults_def)
  have e: "fst (snd (upload permitted example_reload no_faults ''content/settings''
                 ''2019-01-01-00-00-00'' example_files upload_options))
        ''content/settings/routes.yaml'' = Some ''routes: good''"
    by (simp add: upload_def Let_def fs_copy_def path_join_def example_defs)
  from h p e upload_keeps_loadable [where reload = example_reload and fs = example_files
      and contentPath = "''content/settings''" and handlePermissions = permitted
      and now = "''2019-01-01-00-00-00''" and options = upload_options
      and faults = no_faults, OF h p r]
  show ?thesis by simp
qed

text \<open>
  The claim as it was stated fails in three ways. When the application could not load
  the routes file before the upload and cannot load the uploaded file either, the upload
  ends with the former, broken contents. When the copy that replaces the routes file
  fails midway, the upload is rejected and the routes file is left with what had been
  written. When the copy that restores the routes file fails, the routes file keeps
  uploaded contents that the application cannot load.
\<close>

theorem upload_keeps_loadable_counterexample:
  "fst (snd (upload permitted example_reload no_faults ''content/settings''
               ''2019-01-01-00-00-00'' broken_files upload_options))
     ''content/settings/routes.yaml'' = Some ''routes: broken''
   \<and> example_reload (Some ''routes: broken'')
       = Some (ValidationError (T ''errors.services.settings.yaml.error''))
   \<and> upload permitted example_reload
       (no_faults\<lparr>replace_fault := Some (Partial ''rou'' (NodeError ''ENOSPC''))\<rparr>)
       ''content/settings'' ''2019-01-01-00-00-00'' example_files upload_options
     = ([HandlePermissions Edit,
         Copy ''content/settings/routes.yaml''
              ''content/settings/routes-2019-01-01-00-00-00.yaml'',
         Copy ''/tmp/upload.yaml'' ''content/settings/routes.yaml''],
        example_files
          (''content/settings/routes-2019-01-01-00-00-00.yaml'' \<mapsto> ''routes: good'',
           ''content/settings/routes.yaml'' \<mapsto> ''rou''),
        Rejects (NodeError ''ENOSPC''))
   \<and> example_reload (Some ''rou'')
       = Some (ValidationError (T ''errors.services.settings.yaml.error''))
   \<and> fst (snd (upload permitted example_reload
                 (no_faults\<lparr>restore_fault := Some (Fails (NodeError ''EACCES''))\<rparr>)
                 ''content/settings'' ''2019-01-01-00-00-00'' example_files upload_options))
       ''content/settings/routes.yaml'' = Some ''routes: bad''
   \<and> example_reload (Some ''routes: bad'')
       = Some (ValidationError (T ''errors.services.settings.yaml.error''))"
  by (simp add: upload_def Let_def fs_copy_def path_join_def example_defs)

section \<open>The key \<^verbatim>\<open>permalinks\<close>\<close>

text \<open>
  C4, as amended. A \<^verbatim>\<open>read\<close> of the key \<^verbatim>\<open>permalinks\<close> is rejected with a not-found
  error for every context, internal ones included, unless the cache holds it as a core
  setting and the context is not internal (the permission error of C1 comes first). An
  \<^verbatim>\<open>edit\<close> whose first entry, once the entries of key \<^verbatim>\<open>type\<close> are removed, has the
  key \<^verbatim>\<open>permalinks\<close> is rejected with the not-found error for every context; no
  collaborator is consulted and nothing is persisted.
\<close>

theorem permalinks_not_found:
  "(opt_key options = ''permalinks''
      \<and> (\<forall>s. settingsCache_get cache ''permalinks'' = Some s \<longrightarrow>
             type s \<noteq> Some ''core'' \<or> internal (opt_context options))
     \<longrightarrow> (\<exists>m. read cache canThis (Options options) = ([], Rejects (NotFoundError m None))))
   \<and> (normalize_edit stringify object options0 = (eoptions, tp, first # rest)
        \<and> key first = ''permalinks''
     \<longrightarrow> edit cache canThis stringify checkObject models_edit object options0
           = ([], Rejects (NotFoundError (Some (T ''errors.errors.resourceNotFound'')) None)))"
proof (intro conjI impI)
  assume a: "opt_key options = ''permalinks''
      \<and> (\<forall>s. settingsCache_get cache ''permalinks'' = Some s \<longrightarrow>
             type s \<noteq> Some ''core'' \<or> internal (opt_context options))"
  show "\<exists>m. read cache canThis (Options options) = ([], Rejects (NotFoundError m None))"
  proof (cases "settingsCache_get cache ''permalinks''")
    case None
    with a show ?thesis by (simp add: read_def)
  next
    case (Some s)
    with a have "key s = ''permalinks''"
      and "type s \<noteq> Some ''core'' \<or> internal (opt_context options)"
      by (auto dest: settingsCache_get_key)
    with a Some show ?thesis by (auto simp: read_def)
  qed
next
  assume "normalize_edit stringify object options0 = (eoptions, tp, first # rest)
        \<and> key first = ''permalinks''"
  then show "edit cache canThis stringify checkObject models_edit object options0
           = ([], Rejects (NotFoundError (Some (T ''errors.errors.resourceNotFound'')) None))"
    by (simp add: edit_def)
qed

theorem permalinks_not_found_witness:
  "(\<exists>m. read example_cache allow
           (Options (no_options\<lparr>opt_key := ''permalinks'',
                                opt_context := JObject [(''internal'', JBool True)]\<rparr>))
         = ([], Rejects (NotFoundError m None)))
   \<and> edit example_cache allow example_stringify example_checkObject example_models_edit
        (Object [\<lparr>key = ''permalinks'', value = JString ''/:year/'', type = None\<rparr>,
                 \<lparr>key = ''title'', value = JString ''X'', type = None\<rparr>])
        internal_options
      = ([], Rejects (NotFoundError (Some (T ''errors.errors.resourceNotFound'')) None))"
proof -
  let ?options = "no_options\<lparr>opt_key := ''permalinks'',
                              opt_context := JObject [(''internal'', JBool True)]\<rparr>"
  let ?p = "\<lparr>key = ''permalinks'', value = JString ''/:year/'', type = None\<rparr>"
  let ?t = "\<lparr>key = ''title'', value = JString ''X'', type = None\<rparr>"
  have r: "opt_key ?options = ''permalinks''
      \<and> (\<forall>s. settingsCache_get example_cache ''permalinks'' = Some s \<longrightarrow>
             type s \<noteq> Some ''core'' \<or> internal (opt_context ?options))"
    by (simp add: settingsCache_get_def example_cache_def internal_def)
  have e: "normalize_edit example_stringify (Object [?p, ?t]) internal_options
             = (internal_options, None, ?p # [?t])
           \<and> key ?p = ''permalinks''"
    by (simp add: normalize_edit_Object default_options_def internal_options_def clean_def
        type_hint_def)
  from r e permalinks_not_found [of ?options example_cache allow example_stringify
      "Object [?p, ?t]" internal_options internal_options None ?p "[?t]"
      example_checkObject example_models_edit]
  show ?thesis by blast
qed

text \<open>
  The claim as it was stated fails twice. A \<^verbatim>\<open>read\<close> from outside of a \<^verbatim>\<open>permalinks\<close>
  that is a core setting gets the permission error. And an \<^verbatim>\<open>edit\<close> with \<^verbatim>\<open>permalinks\<close>
  as its second entry passes the checks, is persisted and resolves.
\<close>

theorem permalinks_counterexample:
  "read reserved_core_cache allow (Key ''permalinks'')
     = ([], Rejects (NoPermissionError (T ''errors.api.settings.accessCoreSettingFromExtReq'')))
   \<and> persisted (fst (edit example_cache allow example_stringify example_checkObject
        example_models_edit
        (Object [\<lparr>key = ''title'', value = JString ''X'', type = None\<rparr>,
                 \<lparr>key = ''permalinks'', value = JString ''/:year/'', type = None\<rparr>])
        internal_options))
   \<and> snd (edit example_cache allow example_stringify example_checkObject
        example_models_edit
        (Object [\<lparr>key = ''title'', value = JString ''X'', type = None\<rparr>,
                 \<lparr>key = ''permalinks'', value = JString ''/:year/'', type = None\<rparr>])
        internal_options)
     = Resolves \<lparr>settings =
                   [\<lparr>key = ''title'', value = JString ''X'', type = Some ''blog''\<rparr>,
                    \<lparr>key = ''permalinks'', value = JString ''/:year/'',
                       type = Some ''blog''\<rparr>],
                 meta_filters_type = None\<rparr>"
  by (simp add: read_def persisted_def edit_defs example_defs)

section \<open>The key \<^verbatim>\<open>active_theme\<close>\<close>

text \<open>
  C5, as amended. An \<^verbatim>\<open>edit\<close> whose normalized batch has an entry of key
  \<^verbatim>\<open>active_theme\<close> is rejected and never reaches the model, whatever the context, the
  engine and the other entries are. It is rejected with the bad-request error and its
  fixed message and help when \<^verbatim>\<open>active_theme\<close> is a known setting, the first entry is
  not \<^verbatim>\<open>permalinks\<close>, and no entry before it is rejected at once (as an unknown key or
  a core setting asked for from outside is): \<^verbatim>\<open>Promise.all\<close> rejects with the first
  rejection.
\<close>

theorem active_theme_edit:
  assumes "normalize_edit stringify object options0 = (options, tp, pre @ info # post)"
    and "key info = ''active_theme''"
  shows "(\<exists>e. snd (edit cache canThis stringify checkObject models_edit object options0)
                = Rejects e)
         \<and> \<not> persisted (fst (edit cache canThis stringify checkObject models_edit
                               object options0))
         \<and> (key (hd (pre @ [info])) \<noteq> ''permalinks''
              \<and> settingsCache_get cache ''active_theme'' \<noteq> None
              \<and> list_all (\<lambda>p. is_pending (snd (checkSetting cache canThis options p))) pre
            \<longrightarrow> snd (edit cache canThis stringify checkObject models_edit object options0)
                = Rejects (BadRequestError
                     (T ''errors.api.settings.activeThemeSetViaAPI.error'')
                     (T ''errors.api.settings.activeThemeSetViaAPI.help'')))"
proof -
  let ?sets = "pre @ info # post"
  let ?bad = "BadRequestError (T ''errors.api.settings.activeThemeSetViaAPI.error'')
                (T ''errors.api.settings.activeThemeSetViaAPI.help'')"
  let ?edit = "edit cache canThis stringify checkObject models_edit object options0"
  have mem: "info \<in> set ?sets" and ne: "?sets \<noteq> []" by simp_all
  from assms(2) have "fails (snd (checkSetting cache canThis options info))"
    by (rule checkSetting_active_theme)
  with canEditAllSettings_None [of cache canThis ?sets options info] mem
  have "snd (canEditAllSettings cache canThis ?sets options) \<noteq> None" by blast
  note a = edit_failed_authorization [OF assms(1) ne this, of checkObject models_edit]
  have b: "snd ?edit = Rejects ?bad"
    if h: "key (hd (pre @ [info])) \<noteq> ''permalinks''"
      "settingsCache_get cache ''active_theme'' \<noteq> None"
      "list_all (\<lambda>p. is_pending (snd (checkSetting cache canThis options p))) pre"
  proof -
    from h(2) obtain s where s: "settingsCache_get cache ''active_theme'' = Some s" by auto
    have c: "snd (checkSetting cache canThis options info) = Already_rejected ?bad"
      using assms(2) s by (rule checkSetting_active_theme_known)
    from h(3)
    have "list_all is_pending (map (\<lambda>p. snd (checkSetting cache canThis options p)) pre)"
      by (simp add: list_all_iff)
    from first_rejected_pending [OF this]
    have "first_rejected (map (\<lambda>p. snd (checkSetting cache canThis options p)) ?sets)
            = Some ?bad"
      using c by simp
    then have p: "snd (canEditAllSettings cache canThis ?sets options) = Some ?bad"
      by (simp add: canEditAllSettings_def Promise_all_def comp_def)
    obtain first rest where fr: "?sets = first # rest" by (cases ?sets) auto
    then have "first = hd (pre @ [info])" by (cases pre) auto
    with h(1) have nk: "key first \<noteq> ''permalinks''" by simp
    obtain evs where "canEditAllSettings cache canThis ?sets options = (evs, Some ?bad)"
      using p by (cases "canEditAllSettings cache canThis ?sets options") auto
    with assms(1) fr nk show ?thesis
      by (simp add: edit_def)
  qed
  from a b show ?thesis by blast
qed

theorem active_theme_edit_witness:
  "snd (edit example_cache allow example_stringify example_checkObject example_models_edit
         (Object [\<lparr>key = ''title'', value = JString ''X'', type = None\<rparr>,
                  \<lparr>key = ''active_theme'', value = JString ''lyra'', type = None\<rparr>])
         internal_options)
     = Rejects (BadRequestError
                  (T ''errors.api.settings.activeThemeSetViaAPI.error'')
                  (T ''errors.api.settings.activeThemeSetViaAPI.help''))
   \<and> \<not> persisted (fst (edit example_cache allow example_stringify example_checkObject
         example_models_edit
         (Object [\<lparr>key = ''title'', value = JString ''X'', type = None\<rparr>,
                  \<lparr>key = ''active_theme'', value = JString ''lyra'', type = None\<rparr>])
         internal_options))"
proof -
  let ?t = "\<lparr>key = ''title'', value = JString ''X'', type = None\<rparr>"
  let ?a = "\<lparr>key = ''active_theme'', value = JString ''lyra'', type = None\<rparr>"
  have n: "normalize_edit example_stringify (Object [?t, ?a]) internal_options
             = (internal_options, None, [?t] @ ?a # [])"
    by (simp add: normalize_edit_Object default_options_def internal_options_def clean_def
        type_hint_def)
  have k: "key ?a = ''active_theme''" by simp
  have h: "key (hd ([?t] @ [?a])) \<noteq> ''permalinks''
              \<and> settingsCache_get example_cache ''active_theme'' \<noteq> None
              \<and> list_all (\<lambda>p. is_pending (snd (checkSetting example_cache allow
                                                  internal_options p))) [?t]"
    by (simp add: settingsCache_get_def example_cache_def checkSetting_def
        checkSettingPermissions_def)
  from h active_theme_edit [OF n k, of example_cache allow example_checkObject
      example_models_edit]
  show ?thesis by blast
qed

text \<open>
  The claim as it was stated fails on the other entries of the batch and on the cache:
  with an unknown key before \<^verbatim>\<open>active_theme\<close> the edit is rejected with the not-found
  error of that key, with \<^verbatim>\<open>permalinks\<close> as first entry with the not-found error of
  the veto, and with no \<^verbatim>\<open>active_theme\<close> in the cache with the not-found error of
  \<^verbatim>\<open>active_theme\<close> itself.
\<close>

theorem active_theme_counterexample:
  "edit example_cache allow example_stringify example_checkObject example_models_edit
     (Object [\<lparr>key = ''no_such_key'', value = JString ''X'', type = None\<rparr>,
              \<lparr>key = ''active_theme'', value = JString ''lyra'', type = None\<rparr>])
     internal_options
   = ([], Rejects (NotFoundError
                     (Some (T_key ''errors.api.settings.problemFindingSetting''
                              ''no_such_key'')) None))
   \<and> edit example_cache allow example_stringify example_checkObject example_models_edit
     (Object [\<lparr>key = ''permalinks'', value = JString ''/:year/'', type = None\<rparr>,
              \<lparr>key = ''active_theme'', value = JString ''lyra'', type = None\<rparr>])
     internal_options
   = ([], Rejects (NotFoundError (Some (T ''errors.errors.resourceNotFound'')) None))
   \<and> edit [] allow example_stringify example_checkObject example_models_edit
     (Object [\<lparr>key = ''active_theme'', value = JString ''lyra'', type = None\<rparr>])
     internal_options
   = ([], Rejects (NotFoundError
                     (Some (T_key ''errors.api.settings.problemFindingSetting''
                              ''active_theme'')) None))"
  by (simp add: edit_defs example_defs)

section \<open>Edit: all or nothing\<close>

text \<open>
  C6. When an entry of the normalized batch fails its check (its key is unknown, it is
  the protected \<^verbatim>\<open>active_theme\<close>, it is a core setting asked for from outside, or the
  engine rejects it), the edit is rejected and the model is never asked to persist
  anything, whatever the other entries are.
\<close>

theorem edit_all_or_nothing:
  assumes "normalize_edit stringify object options0 = (options, tp, sets)"
    and "s \<in> set sets"
    and "fails (snd (checkSetting cache canThis options s))"
  shows "(\<exists>e. snd (edit cache canThis stringify checkObject models_edit object options0)
                = Rejects e)
         \<and> \<not> persisted (fst (edit cache canThis stringify checkObject models_edit
                               object options0))"
proof -
  from assms(2) have ne: "sets \<noteq> []" by auto
  from canEditAllSettings_None [of cache canThis sets options s] assms(2,3)
  have "snd (canEditAllSettings cache canThis sets options) \<noteq> None" by blast
  with assms(1) ne show ?thesis by (rule edit_failed_authorization)
qed

theorem edit_all_or_nothing_witness:
  "fails (snd (checkSetting example_cache allow external_options
                   \<lparr>key = ''db_hash'', value = JString ''Y'', type = None\<rparr>))
   \<and> (\<exists>e. snd (edit example_cache allow example_stringify example_checkObject
                  example_models_edit
                  (Object [\<lparr>key = ''title'', value = JString ''X'', type = None\<rparr>,
                           \<lparr>key = ''db_hash'', value = JString ''Y'', type = None\<rparr>])
                  external_options) = Rejects e)
   \<and> \<not> persisted (fst (edit example_cache allow example_stringify example_checkObject
                  example_models_edit
                  (Object [\<lparr>key = ''title'', value = JString ''X'', type = None\<rparr>,
                           \<lparr>key = ''db_hash'', value = JString ''Y'', type = None\<rparr>])
                  external_options))"
proof -
  let ?x = "\<lparr>key = ''title'', value = JString ''X'', type = None\<rparr>"
  let ?y = "\<lparr>key = ''db_hash'', value = JString ''Y'', type = None\<rparr>"
  have n: "normalize_edit example_stringify (Object [?x, ?y]) external_options
             = (external_options, None, [?x, ?y])"
    by (simp add: normalize_edit_Object default_options_def external_options_def clean_def
          type_hint_def)
  have m: "?y \<in> set [?x, ?y]" by simp
  have f: "fails (snd (checkSetting example_cache allow external_options ?y))"
    by (simp add: checkSetting_def settingsCache_get_def example_cache_def
          checkSettingPermissions_def external_options_def internal_def)
  from f edit_all_or_nothing [OF n m f, of example_checkObject example_models_edit]
  show ?thesis by simp
qed

section \<open>Browse without a context\<close>

text \<open>
  Without a context (or with a falsy one) \<^verbatim>\<open>browse\<close> consults nobody and resolves with
  the settings of type \<^verbatim>\<open>blog\<close> of the type-filtered cache, in the order of the cache.
\<close>

lemma no_context_settings:
  assumes "\<not> truthy (opt_context options)"
  shows "browse cache canThis (Some options)
           = ([], Resolves (Settings (filter (\<lambda>setting. type setting = Some ''blog'')
                                         (settingsFilter cache (opt_type options)))))"
    and "browse cache canThis None
           = ([], Resolves (Settings (filter (\<lambda>setting. type setting = Some ''blog'') cache)))"
  using assms
  by (simp_all add: browse_def settingsResult_def settingsFilter_def no_options_def
      settingsCache_getAll_def)

text \<open>
  C7, as amended. Without a context \<^verbatim>\<open>browse\<close> resolves with settings of type
  \<^verbatim>\<open>blog\<close> only, and with every setting of type \<^verbatim>\<open>blog\<close> whose key is not
  \<^verbatim>\<open>permalinks\<close>: all of them when it is called with nothing, those of the requested
  types when the options name types.
\<close>

theorem browse_no_context:
  assumes "\<not> truthy (opt_context options)"
  shows "(\<exists>found. browse cache canThis None = ([], Resolves (Settings found))
            \<and> list_all (\<lambda>setting. type setting = Some ''blog'') found
            \<and> filter (\<lambda>setting. key setting \<noteq> ''permalinks'') found
                = filter (\<lambda>setting. type setting = Some ''blog''
                                      \<and> key setting \<noteq> ''permalinks'') cache)
       \<and> (\<exists>found. browse cache canThis (Some options) = ([], Resolves (Settings found))
            \<and> list_all (\<lambda>setting. type setting = Some ''blog'') found
            \<and> filter (\<lambda>setting. key setting \<noteq> ''permalinks'') found
                = filter (\<lambda>setting. type setting = Some ''blog''
                                      \<and> key setting \<noteq> ''permalinks'')
                    (settingsFilter cache (opt_type options)))"
  using no_context_settings [OF assms, of cache canThis]
  by (simp add: list_all_iff conj_commute)

theorem browse_no_context_witness:
  "\<exists>found. browse example_cache deny (Some (no_options\<lparr>opt_type := Some ''theme,blog''\<rparr>))
              = ([], Resolves (Settings found))
     \<and> list_all (\<lambda>setting. type setting = Some ''blog'') found
     \<and> filter (\<lambda>setting. key setting \<noteq> ''permalinks'') found
         = [\<lparr>key = ''title'', value = JString ''Ghost'', type = Some ''blog''\<rparr>]"
proof -
  have h: "\<not> truthy (opt_context (no_options\<lparr>opt_type := Some ''theme,blog''\<rparr>))"
    by (simp add: no_options_def)
  have f: "filter (\<lambda>setting. type setting = Some ''blog'' \<and> key setting \<noteq> ''permalinks'')
             (settingsFilter example_cache
                (opt_type (no_options\<lparr>opt_type := Some ''theme,blog''\<rparr>)))
           = [\<lparr>key = ''title'', value = JString ''Ghost'', type = Some ''blog''\<rparr>]"
    by (simp add: settingsFilter_def example_cache_def)
  from browse_no_context [OF h, of example_cache deny]
  show ?thesis unfolding f by blast
qed

text \<open>
  The claim as it was stated fails on \<^verbatim>\<open>permalinks\<close>: called with nothing, \<^verbatim>\<open>browse\<close>
  returns the \<^verbatim>\<open>permalinks\<close> of type \<^verbatim>\<open>blog\<close> with the other blog settings. It also
  fails on the type filter: asked for the type \<^verbatim>\<open>theme\<close> and given no context,
  \<^verbatim>\<open>browse\<close> returns no setting, though the cache has blog settings.
\<close>

theorem browse_no_context_counterexample:
  "browse example_cache allow None
     = ([], Resolves (Settings
          [\<lparr>key = ''title'', value = JString ''Ghost'', type = Some ''blog''\<rparr>,
           \<lparr>key = ''permalinks'', value = JString ''/:slug/'', type = Some ''blog''\<rparr>]))
   \<and> browse example_cache allow (Some (no_options\<lparr>opt_type := Some ''theme''\<rparr>))
     = ([], Resolves (Settings []))"
  by (simp add: browse_def settingsResult_def settingsFilter_def no_options_def
      settingsCache_getAll_def example_cache_def)

section \<open>Download\<close>

text \<open>
  C8. Once the permission handler has let the call through, a failed read of the routes
  file ends in one of three ways: a missing file (\<^verbatim>\<open>ENOENT\<close>) resolves with the empty
  array; an error of the classes of \<^verbatim>\<open>common.errors\<close> is rejected as it is; any other
  error is rejected wrapped in a not-found error.
\<close>

theorem download_read_failure:
  assumes "handlePermissions ''settings'' Browse options = None"
    and "readFile (path_join contentPath ''routes.yaml'') = Inl err"
  shows "snd (download handlePermissions readFile contentPath options)
           = (if code err = Some ''ENOENT'' then Resolves Empty_array
              else if isIgnitionError err then Rejects err
              else Rejects (NotFoundError None (Some err)))"
  using assms by (simp add: download_def Let_def)

theorem download_read_failure_witness:
  "snd (download permitted no_access ''content/settings'' no_options)
     = Rejects (NotFoundError None (Some (NodeError ''EACCES'')))"
proof -
  have p: "permitted ''settings'' Browse no_options = None"
    by (simp add: permitted_def)
  have r: "no_access (path_join ''content/settings'' ''routes.yaml'')
             = Inl (NodeError ''EACCES'')"
    by (simp add: no_access_def)
  from download_read_failure [where handlePermissions = permitted and readFile = no_access
      and contentPath = "''content/settings''" and options = no_options
      and err = "NodeError ''EACCES''", OF p r]
  show ?thesis by simp
qed

section \<open>Edit: the normalization\<close>




section \<open>Edit: the empty batch\<close>

text \<open>
  C10. An edit whose batch is empty once the entries of key \<^verbatim>\<open>type\<close> are gone (an empty
  list of settings, or entries of that key only) reads the key of a first entry that is
  not there: the call throws a TypeError, consults no collaborator and gives none of the
  errors of the API.
\<close>

theorem edit_empty_batch_throws:
  assumes "list_all (\<lambda>s. key s = ''type'') sets"
  shows "edit cache canThis stringify checkObject models_edit (Object sets) options
           = ([], Throws (TypeError ''Cannot read property 'key' of undefined''))"
  using assms by (simp add: edit_def normalize_edit_Object list_all_iff)

theorem edit_empty_batch_throws_witness:
  "list_all (\<lambda>s. key s = ''type'') [\<lparr>key = ''type'', value = JString ''blog'', type = None\<rparr>]
   \<and> edit example_cache allow example_stringify example_checkObject example_models_edit
        (Object [\<lparr>key = ''type'', value = JString ''blog'', type = None\<rparr>]) internal_options
      = ([], Throws (TypeError ''Cannot read property 'key' of undefined''))"
proof -
  have h: "list_all (\<lambda>s. key s = ''type'')
             [\<lparr>key = ''type'', value = JString ''blog'', type = None\<rparr>]"
    by simp
  from h edit_empty_batch_throws [OF h] show ?thesis by simp
qed

end
